theory Spec2Isabelle
  imports Main "HOL-Library.List_Lexorder" "HOL-Library.Char_ord" "HOL-Library.Product_Lexorder"
begin

section \<open>The gwctl command layer: describe.go and get.go\<close>

subsection \<open>Flags\<close>

text \<open>
  Both commands register two flags with \<open>cmd.Flags()\<close>: the string flag
  \<open>namespace\<close> (short \<open>-n\<close>, default \<open>default\<close>) and the boolean flag
  \<open>all-namespaces\<close> (short \<open>-A\<close>, default false). A flag set is a finite map
  from flag names to typed values. \<open>GetString\<close> and \<open>GetBool\<close> are the flag
  library's typed reads: they fail on a name that was never registered and on a flag
  of another type, and the failure is an error value whose text is the left summand.
\<close>

datatype FlagValue = StringFlag string | BoolFlag bool

type_synonym FlagSet = "string \<rightharpoonup> FlagValue"

definition GetString :: "FlagSet \<Rightarrow> string \<Rightarrow> string + string" where
  "GetString fs name =
     (case fs name of
        None \<Rightarrow> Inl (''flag accessed but not defined: '' @ name)
      | Some (StringFlag s) \<Rightarrow> Inr s
      | Some (BoolFlag b) \<Rightarrow> Inl ''trying to get string value of flag of type bool'')"

definition GetBool :: "FlagSet \<Rightarrow> string \<Rightarrow> string + bool" where
  "GetBool fs name =
     (case fs name of
        None \<Rightarrow> Inl (''flag accessed but not defined: '' @ name)
      | Some (BoolFlag b) \<Rightarrow> Inr b
      | Some (StringFlag s) \<Rightarrow> Inl ''trying to get bool value of flag of type string'')"

text \<open>
  \<open>NewDescribeCommand\<close> and \<open>NewGetCommand\<close> register the same two flags with the
  same defaults (describe.go lines 46-47, get.go lines 43-44).
\<close>

definition NewDescribeCommand_flags :: FlagSet where
  "NewDescribeCommand_flags =
     [''namespace'' \<mapsto> StringFlag ''default'', ''all-namespaces'' \<mapsto> BoolFlag False]"

definition NewGetCommand_flags :: FlagSet where
  "NewGetCommand_flags =
     [''namespace'' \<mapsto> StringFlag ''default'', ''all-namespaces'' \<mapsto> BoolFlag False]"

text \<open>
  What the command line gave: \<open>-n VALUE\<close> or nothing, and \<open>-A\<close> (with the value
  it was given; a bare \<open>-A\<close> is \<open>Some True\<close>) or nothing. Parsing stores each
  given value in its flag and leaves the defaults of the others.
\<close>

record Invocation =
  namespaceArg :: "string option"
  allNamespacesArg :: "bool option"

definition parseFlags :: "Invocation \<Rightarrow> FlagSet \<Rightarrow> FlagSet" where
  "parseFlags call fs =
     (let fs1 = (case namespaceArg call of
                   None \<Rightarrow> fs
                 | Some v \<Rightarrow> fs(''namespace'' \<mapsto> StringFlag v))
      in case allNamespacesArg call of
           None \<Rightarrow> fs1
         | Some b \<Rightarrow> fs1(''all-namespaces'' \<mapsto> BoolFlag b))"

subsection \<open>Collaborators, output and exit status\<close>

text \<open>
  The policy manager and the cluster helpers are outside these two files: they are the
  fields of the parameters record. A helper that returns \<open>(value, error)\<close> in Go is a
  sum, the error's text on the left; \<open>GetPolicy\<close> returns \<open>(policy, found)\<close> in Go
  and is an option here. The type variables are the policy, policy CRD, HTTPRoute,
  Gateway, GatewayClass and backend objects.
\<close>

record ('p, 'c, 'r, 'g, 'k, 'b) CmdParams =
  GetPolicies :: "'p list"
  GetPolicy :: "string \<Rightarrow> 'p option"
  GetCRDs :: "'c list"
  ListHTTPRoutes :: "string \<Rightarrow> string + 'r list"
  GetHTTPRoute :: "string \<Rightarrow> string \<Rightarrow> string + 'r"
  ListGateways :: "string \<Rightarrow> string + 'g list"
  GetGateways :: "string \<Rightarrow> string \<Rightarrow> string + 'g"
  ListGatewayClasses :: "string + 'k list"
  GetGatewayClass :: "string \<Rightarrow> string + 'k"
  ListBackends :: "string \<Rightarrow> string \<Rightarrow> string + 'b list"
  GetBackend :: "string \<Rightarrow> string \<Rightarrow> string \<Rightarrow> string + 'b"

text \<open>The calls made to the printers, each with the list it is given.\<close>

datatype ('p, 'c, 'r, 'g, 'k, 'b) PrintCall =
    PoliciesDescribeView "'p list"
  | HTTPRoutesDescribeView "'r list"
  | GatewaysDescribeView "'g list"
  | GatewayClassesDescribeView "'k list"
  | BackendsDescribeView "'b list"
  | PoliciesPrint "'p list"
  | PoliciesPrintCRDs "'c list"
  | HTTPRoutesPrint "'r list"

text \<open>
  How a run ends: the function returns (the process then ends with exit code 0),
  \<open>os.Exit\<close> is called with a code, or \<open>args[0]\<close> is read from an empty argument
  list and the program panics.
\<close>

datatype Status = Returned | Exited int | Panicked

text \<open>
  The observable result of a run: the printer calls, the texts written to the error
  stream, the keys passed to \<open>GetPolicy\<close> in call order, and how the run ended.
\<close>

record ('p, 'c, 'r, 'g, 'k, 'b) Result =
  out :: "('p, 'c, 'r, 'g, 'k, 'b) PrintCall list"
  errOut :: "string list"
  lookups :: "string list"
  status :: Status

definition printed :: "('p, 'c, 'r, 'g, 'k, 'b) PrintCall \<Rightarrow> ('p, 'c, 'r, 'g, 'k, 'b) Result" where
  "printed c = \<lparr>out = [c], errOut = [], lookups = [], status = Returned\<rparr>"

text \<open>\<open>fmt.Fprintf(os.Stderr, ...)\<close> followed by \<open>os.Exit(1)\<close>.\<close>

definition fatal :: "string \<Rightarrow> ('p, 'c, 'r, 'g, 'k, 'b) Result" where
  "fatal msg = \<lparr>out = [], errOut = [msg], lookups = [], status = Exited 1\<rparr>"

definition unrecognized :: "('p, 'c, 'r, 'g, 'k, 'b) Result" where
  "unrecognized =
     \<lparr>out = [], errOut = [''Unrecognized RESOURCE_TYPE'' @ [CHR 0x0A]], lookups = [],
      status = Returned\<rparr>"

subsection \<open>Reading the namespace\<close>

text \<open>
  The first lines of \<open>runDescribe\<close> (54-68) and of \<open>runGet\<close> (51-65) are the same:
  read \<open>namespace\<close>, read \<open>all-namespaces\<close>, and replace the namespace by the empty
  string when \<open>all-namespaces\<close> is true. A failed read writes its message and exits
  with code 1; the message is the left summand.
\<close>

definition readNamespace :: "FlagSet \<Rightarrow> string + string" where
  "readNamespace flags =
     (case GetString flags ''namespace'' of
        Inl e \<Rightarrow>
          Inl (''failed to read flag '' @ [CHR 0x22] @ ''namespace'' @ [CHR 0x22] @ '': ''
               @ e @ [CHR 0x0A])
      | Inr ns \<Rightarrow>
          (case GetBool flags ''all-namespaces'' of
             Inl e \<Rightarrow>
               Inl (''failed to read flag '' @ [CHR 0x22] @ ''all-namespaces'' @ [CHR 0x22]
                    @ '': '' @ e @ [CHR 0x0A])
           | Inr allNs \<Rightarrow> Inr (if allNs then [] else ns)))"

subsection \<open>describe\<close>

text \<open>
  The branch of \<open>runDescribe\<close> for \<open>policy\<close> and \<open>policies\<close> (lines 78-92), with
  \<open>rest\<close> the arguments after the resource type.
\<close>

definition describePolicies ::
  "string \<Rightarrow> string list \<Rightarrow> ('p, 'c, 'r, 'g, 'k, 'b) CmdParams \<Rightarrow> ('p, 'c, 'r, 'g, 'k, 'b) Result" where
  "describePolicies ns rest params =
     (case rest of
        [] \<Rightarrow> printed (PoliciesDescribeView (GetPolicies params))
      | name # _ \<Rightarrow>
          (case GetPolicy params (ns @ ''/'' @ name) of
             Some policy \<Rightarrow>
               \<lparr>out = [PoliciesDescribeView [policy]], errOut = [],
                lookups = [ns @ ''/'' @ name], status = Returned\<rparr>
           | None \<Rightarrow>
               if ns = ''default'' then
                 (case GetPolicy params (''/'' @ name) of
                    Some policy \<Rightarrow>
                      \<lparr>out = [PoliciesDescribeView [policy]], errOut = [],
                       lookups = [ns @ ''/'' @ name, ''/'' @ name], status = Returned\<rparr>
                  | None \<Rightarrow>
                      \<lparr>out = [PoliciesDescribeView []], errOut = [],
                       lookups = [ns @ ''/'' @ name, ''/'' @ name], status = Returned\<rparr>)
               else
                 \<lparr>out = [PoliciesDescribeView []], errOut = [],
                  lookups = [ns @ ''/'' @ name], status = Returned\<rparr>))"

text \<open>The \<open>switch kind\<close> of \<open>runDescribe\<close> (lines 77-176).\<close>

definition describeSwitch ::
  "string \<Rightarrow> string \<Rightarrow> string list \<Rightarrow> ('p, 'c, 'r, 'g, 'k, 'b) CmdParams
     \<Rightarrow> ('p, 'c, 'r, 'g, 'k, 'b) Result" where
  "describeSwitch ns kind rest params =
     (if kind = ''policy'' \<or> kind = ''policies'' then describePolicies ns rest params
      else if kind = ''httproute'' \<or> kind = ''httproutes'' then
        (case rest of
           [] \<Rightarrow>
             (case ListHTTPRoutes params ns of
                Inl e \<Rightarrow> fatal (''failed to list HTTPRoute resources: '' @ e @ [CHR 0x0A])
              | Inr httpRoutes \<Rightarrow> printed (HTTPRoutesDescribeView httpRoutes))
         | name # _ \<Rightarrow>
             (case GetHTTPRoute params ns name of
                Inl e \<Rightarrow> fatal (''failed to get HTTPRoute resource: '' @ e @ [CHR 0x0A])
              | Inr httpRoute \<Rightarrow> printed (HTTPRoutesDescribeView [httpRoute])))
      else if kind = ''gateway'' \<or> kind = ''gateways'' then
        (case rest of
           [] \<Rightarrow>
             (case ListGateways params ns of
                Inl e \<Rightarrow> fatal (''failed to list Gateway resources: '' @ e @ [CHR 0x0A])
              | Inr gws \<Rightarrow> printed (GatewaysDescribeView gws))
         | name # _ \<Rightarrow>
             (case GetGateways params ns name of
                Inl e \<Rightarrow> fatal (''failed to get Gateway resource: '' @ e @ [CHR 0x0A])
              | Inr gw \<Rightarrow> printed (GatewaysDescribeView [gw])))
      else if kind = ''gatewayclass'' \<or> kind = ''gatewayclasses'' then
        (case rest of
           [] \<Rightarrow>
             (case ListGatewayClasses params of
                Inl e \<Rightarrow> fatal (''failed to list GatewayClass resources: '' @ e @ [CHR 0x0A])
              | Inr gwClasses \<Rightarrow> printed (GatewayClassesDescribeView gwClasses))
         | name # _ \<Rightarrow>
             (case GetGatewayClass params name of
                Inl e \<Rightarrow> fatal (''failed to get GatewayClass resource: '' @ e @ [CHR 0x0A])
              | Inr gwc \<Rightarrow> printed (GatewayClassesDescribeView [gwc])))
      else if kind = ''backend'' \<or> kind = ''backends'' then
        (case rest of
           [] \<Rightarrow>
             (case ListBackends params ''service'' ns of
                Inl e \<Rightarrow> fatal (''failed to list Backend resources: '' @ e @ [CHR 0x0A])
              | Inr backendsList \<Rightarrow> printed (BackendsDescribeView backendsList))
         | name # _ \<Rightarrow>
             (case GetBackend params ''service'' ns name of
                Inl e \<Rightarrow> fatal (''failed to get Backend resource: '' @ e @ [CHR 0x0A])
              | Inr backend \<Rightarrow> printed (BackendsDescribeView [backend])))
      else unrecognized)"

text \<open>
  \<open>runDescribe\<close>: \<open>kind := args[0]\<close> panics on an empty argument list; then the
  flags are read, and the switch runs with the namespace they give.
\<close>

definition runDescribe ::
  "FlagSet \<Rightarrow> string list \<Rightarrow> ('p, 'c, 'r, 'g, 'k, 'b) CmdParams \<Rightarrow> ('p, 'c, 'r, 'g, 'k, 'b) Result" where
  "runDescribe flags args params =
     (case args of
        [] \<Rightarrow> \<lparr>out = [], errOut = [], lookups = [], status = Panicked\<rparr>
      | kind # rest \<Rightarrow>
          (case readNamespace flags of
             Inl msg \<Rightarrow> fatal msg
           | Inr ns \<Rightarrow> describeSwitch ns kind rest params))"

subsection \<open>get\<close>

text \<open>The \<open>switch kind\<close> of \<open>runGet\<close> (lines 71-90).\<close>

definition getSwitch ::
  "string \<Rightarrow> string \<Rightarrow> ('p, 'c, 'r, 'g, 'k, 'b) CmdParams \<Rightarrow> ('p, 'c, 'r, 'g, 'k, 'b) Result" where
  "getSwitch ns kind params =
     (if kind = ''policy'' \<or> kind = ''policies'' then
        printed (PoliciesPrint (GetPolicies params))
      else if kind = ''policycrds'' then
        printed (PoliciesPrintCRDs (GetCRDs params))
      else if kind = ''httproute'' \<or> kind = ''httproutes'' then
        (case ListHTTPRoutes params ns of
           Inl e \<Rightarrow> fatal (''failed to list HTTPRoute resources: '' @ e @ [CHR 0x0A])
         | Inr list \<Rightarrow> printed (HTTPRoutesPrint list))
      else unrecognized)"

definition runGet ::
  "FlagSet \<Rightarrow> string list \<Rightarrow> ('p, 'c, 'r, 'g, 'k, 'b) CmdParams \<Rightarrow> ('p, 'c, 'r, 'g, 'k, 'b) Result" where
  "runGet flags args params =
     (case args of
        [] \<Rightarrow> \<lparr>out = [], errOut = [], lookups = [], status = Panicked\<rparr>
      | kind # rest \<Rightarrow>
          (case readNamespace flags of
             Inl msg \<Rightarrow> fatal msg
           | Inr ns \<Rightarrow> getSwitch ns kind params))"

subsection \<open>The commands\<close>

text \<open>
  The \<open>Run\<close> closures of the two commands. \<open>Args: cobra.RangeArgs(1, 2)\<close> and
  \<open>Args: cobra.ExactArgs(1)\<close> reject other argument counts before \<open>Run\<close> is
  called: the result is then \<open>None\<close>. The flags are those registered by the command,
  after the command line has been parsed into them.
\<close>

definition NewDescribeCommand ::
  "Invocation \<Rightarrow> string list \<Rightarrow> ('p, 'c, 'r, 'g, 'k, 'b) CmdParams
     \<Rightarrow> ('p, 'c, 'r, 'g, 'k, 'b) Result option" where
  "NewDescribeCommand call args params =
     (if 1 \<le> length args \<and> length args \<le> 2
      then Some (runDescribe (parseFlags call NewDescribeCommand_flags) args params)
      else None)"

definition NewGetCommand ::
  "Invocation \<Rightarrow> string list \<Rightarrow> ('p, 'c, 'r, 'g, 'k, 'b) CmdParams
     \<Rightarrow> ('p, 'c, 'r, 'g, 'k, 'b) Result option" where
  "NewGetCommand call args params =
     (if length args = 1
      then Some (runGet (parseFlags call NewGetCommand_flags) args params)
      else None)"

text \<open>The namespace an invocation asks for.\<close>

definition effectiveNamespace :: "Invocation \<Rightarrow> string" where
  "effectiveNamespace call =
     (if allNamespacesArg call = Some True then []
      else (case namespaceArg call of None \<Rightarrow> ''default'' | Some v \<Rightarrow> v))"

subsection \<open>A small cluster\<close>

text \<open>
  Parameters for concrete runs, with every object a string: one namespaced policy, one
  cluster-scoped policy (its key starts with the separator), one HTTPRoute in the
  namespace \<open>default\<close>, and no Gateway, GatewayClass or backend.
\<close>

definition notFound :: "string \<Rightarrow> string" where
  "notFound name = name @ '' not found''"

definition demoParams :: "(string, string, string, string, string, string) CmdParams" where
  "demoParams =
     \<lparr>GetPolicies = [''default/timeouts'', ''/cluster-policy''],
      GetPolicy = (\<lambda>key. if key = ''default/timeouts'' then Some ''default/timeouts''
                         else if key = ''/cluster-policy'' then Some ''/cluster-policy''
                         else None),
      GetCRDs = [''timeoutpolicies''],
      ListHTTPRoutes = (\<lambda>ns. if ns = ''default'' \<or> ns = [] then Inr [''r1''] else Inr []),
      GetHTTPRoute = (\<lambda>ns name. if ns = ''default'' \<and> name = ''r1'' then Inr ''r1''
                                 else Inl (notFound name)),
      ListGateways = (\<lambda>ns. Inl ''connection refused''),
      GetGateways = (\<lambda>ns name. Inl (notFound name)),
      ListGatewayClasses = Inr [],
      GetGatewayClass = (\<lambda>name. Inl (notFound name)),
      ListBackends = (\<lambda>resourceType ns. Inr []),
      GetBackend = (\<lambda>resourceType ns name. Inl (notFound name))\<rparr>"

section \<open>The merge engine\<close>

text \<open>
  Modelled from the spec: the package \<open>gwctl/pkg/effectivepolicy\<close>, which the two
  command files import and whose code is not among the source files. \<open>PolicyValue\<close>
  is the field tree of section 3: a tagged variant over Null, Bool, Number, String, an
  ordered list of values and an ordered mapping of field names to values. A number
  is an integer here; nothing below computes with it.
\<close>

datatype PolicyValue =
    Null
  | Bool bool
  | Number int
  | String string
  | List "PolicyValue list"
  | Object "(string \<times> PolicyValue) list"

text \<open>
  Modelled from the spec: the type of a value, for the type mismatch of section 4.3,
  is its variant; the code that compares types is not among the source files.
\<close>

datatype ValueType = NullType | BoolType | NumberType | StringType | ListType | ObjectType

fun typeOf :: "PolicyValue \<Rightarrow> ValueType" where
  "typeOf Null = NullType"
| "typeOf (Bool b) = BoolType"
| "typeOf (Number n) = NumberType"
| "typeOf (String s) = StringType"
| "typeOf (List xs) = ListType"
| "typeOf (Object fs) = ObjectType"

text \<open>
  Modelled from the spec: the identity of a Gateway API object (section 3), a kind,
  a namespace and a name; the resource types are not among the source files.
\<close>

datatype ResourceKind = GatewayClass | Gateway | HTTPRoute | Backend

record ResourceRef =
  refKind :: ResourceKind
  refNamespace :: string
  refName :: string

text \<open>
  Modelled from the spec: the warnings of the taxonomy of section 7, each with the
  field path, the policy name or the resource it is about.
\<close>

datatype Warning =
    MergeConflict "string list"
  | AmbiguousPolicy "string list"
  | UnknownPolicyKind string
  | CycleDetected ResourceRef
  | NoApplicablePolicy

text \<open>
  Modelled from the spec: \<open>merge(base, override)\<close> of section 4.3, whose code is not
  among the source files. Two objects are merged field by field: a field of \<open>base\<close>
  that \<open>override\<close> also has is merged recursively, a field of one side only is
  carried through (the fields of \<open>base\<close> first, in their order, then those only
  \<open>override\<close> has). In every other case \<open>override\<close>'s value is the result, a
  list as a whole; when the two values are of different types the conflict is
  reported. \<open>mergeReport\<close> returns the merged value with the field paths of the
  conflicts, each path relative to the values merged.
\<close>

fun mergeReport :: "PolicyValue \<Rightarrow> PolicyValue \<Rightarrow> PolicyValue \<times> string list list"
and mergeFields :: "(string \<times> PolicyValue) list \<Rightarrow> (string \<times> PolicyValue) list
      \<Rightarrow> (string \<times> PolicyValue) list \<times> string list list" where
  "mergeReport (Object bs) (Object os) =
     (Object (fst (mergeFields bs os) @ filter (\<lambda>(k, v). map_of bs k = None) os),
      snd (mergeFields bs os))"
| "mergeReport base override =
     (override, if typeOf base = typeOf override then [] else [[]])"
| "mergeFields [] os = ([], [])"
| "mergeFields ((k, bv) # bs) os =
     (case map_of os k of
        None \<Rightarrow> ((k, bv) # fst (mergeFields bs os), snd (mergeFields bs os))
      | Some ov \<Rightarrow>
          ((k, fst (mergeReport bv ov)) # fst (mergeFields bs os),
           map ((#) k) (snd (mergeReport bv ov)) @ snd (mergeFields bs os)))"

text \<open>
  Modelled from the spec: \<open>merge\<close> as section 4.3 types it, the merged value of two
  trees; its code is not among the source files.
\<close>

definition merge :: "PolicyValue \<Rightarrow> PolicyValue \<Rightarrow> PolicyValue" where
  "merge base override = fst (mergeReport base override)"

text \<open>
  Modelled from the spec: the \<open>MergeConflict\<close> warnings that a merge records
  (sections 4.3 and 7), one for each field path with a type mismatch.
\<close>

definition mergeConflicts :: "PolicyValue \<Rightarrow> PolicyValue \<Rightarrow> Warning list" where
  "mergeConflicts base override = map MergeConflict (snd (mergeReport base override))"

text \<open>
  Modelled from the spec: the value a tree holds at a field path (the paths of
  sections 3 and 4.3), \<open>None\<close> when the path leaves the tree: a field is missing, or
  a value on the way is not an object. A field name is looked up as the mapping is
  read, the first entry of that name.
\<close>

fun valueAt :: "string list \<Rightarrow> PolicyValue \<Rightarrow> PolicyValue option" where
  "valueAt [] v = Some v"
| "valueAt (k # path) (Object fs) =
     (case map_of fs k of None \<Rightarrow> None | Some v \<Rightarrow> valueAt path v)"
| "valueAt (k # path) v = None"

section \<open>The policy catalog\<close>

text \<open>
  Modelled from the spec: \<open>PolicyCRD\<close> of section 3, a policy kind with the resource
  kinds it may target and its inheritance scope; the policy manager's types are not
  among the source files.
\<close>

datatype InheritanceScope = DirectOnly | Inheritable

record PolicyCRD =
  groupKind :: string
  targetKinds :: "ResourceKind list"
  inheritanceScope :: InheritanceScope

text \<open>
  Modelled from the spec: \<open>PolicyInstance\<close> of section 3, with the kind that the
  calculator filters by, the target reference, the creation timestamp, the name and
  the field tree.
\<close>

record PolicyInstance =
  policyKind :: string
  targetRef :: ResourceRef
  creationTimestamp :: nat
  policyName :: string
  fieldTree :: PolicyValue

text \<open>
  Modelled from the spec: the \<open>PolicyCatalog\<close> of section 4.1, the policy kinds and
  the instances it has indexed, in the order they were registered.
\<close>

record PolicyCatalog =
  crds :: "PolicyCRD list"
  instances :: "PolicyInstance list"

text \<open>
  Modelled from the spec: \<open>policiesTargeting\<close> of section 4.1, the instances whose
  target reference is the given one, ordered by creation timestamp and then by name,
  both ascending. Its code is not among the source files.
\<close>

definition policiesTargeting :: "PolicyCatalog \<Rightarrow> ResourceRef \<Rightarrow> PolicyInstance list" where
  "policiesTargeting cat ref =
     sort_key (\<lambda>inst. (creationTimestamp inst, policyName inst))
       (filter (\<lambda>inst. targetRef inst = ref) (instances cat))"

text \<open>
  Modelled from the spec: \<open>crdFor\<close> of section 4.1, the registered policy kind of
  that name, if any. Its code is not among the source files.
\<close>

definition crdFor :: "PolicyCatalog \<Rightarrow> string \<Rightarrow> PolicyCRD option" where
  "crdFor cat gk = find (\<lambda>crd. groupKind crd = gk) (crds cat)"

section \<open>The effective policy calculator\<close>

text \<open>
  Modelled from the spec: \<open>EffectivePolicy\<close> of section 3, a merged value with the
  provenance of each field path, the policy instance that contributed the value
  standing there.
\<close>

record EffectivePolicy =
  epValue :: PolicyValue
  provenance :: "string list \<Rightarrow> PolicyInstance option"

text \<open>
  Modelled from the spec: a field path has a provenance where the tree holds a value
  that is not an object, the values one instance alone supplies.
\<close>

definition isLeaf :: "PolicyValue option \<Rightarrow> bool" where
  "isLeaf r = (case r of None \<Rightarrow> False | Some v \<Rightarrow> typeOf v \<noteq> ObjectType)"

text \<open>
  Modelled from the spec: one instance alone, as a value with provenance: every
  value of its field tree is its own.
\<close>

definition layerOf :: "PolicyInstance \<Rightarrow> EffectivePolicy" where
  "layerOf inst =
     \<lparr>epValue = fieldTree inst,
      provenance = (\<lambda>path. if isLeaf (valueAt path (fieldTree inst)) then Some inst else None)\<rparr>"

text \<open>
  Modelled from the spec: the calculator's use of the merge engine (section 4.3, last
  item): the values are merged, and the provenance of a path of the result is that of
  the input that supplied the value, \<open>override\<close> where it holds a value at the path
  and \<open>base\<close> elsewhere.
\<close>

definition mergeLayers :: "EffectivePolicy \<Rightarrow> EffectivePolicy \<Rightarrow> EffectivePolicy" where
  "mergeLayers base override =
     \<lparr>epValue = merge (epValue base) (epValue override),
      provenance = (\<lambda>path.
        if isLeaf (valueAt path (merge (epValue base) (epValue override)))
        then (if valueAt path (epValue override) \<noteq> None then provenance override path
              else provenance base path)
        else None)\<rparr>"

text \<open>
  Modelled from the spec: the conflicting fields of two policies of one tier (step 4
  of section 4.4 and \<open>AmbiguousPolicy\<close> of section 7): the field paths at which
  both hold a value, not both an object, and the values differ.
\<close>

fun conflictsAt :: "PolicyValue \<Rightarrow> PolicyValue \<Rightarrow> string list list"
and conflictsIn :: "(string \<times> PolicyValue) list \<Rightarrow> (string \<times> PolicyValue) list
      \<Rightarrow> string list list" where
  "conflictsAt (Object bs) (Object os) = conflictsIn bs os"
| "conflictsAt base override = (if base = override then [] else [[]])"
| "conflictsIn [] os = []"
| "conflictsIn ((k, bv) # bs) os =
     (case map_of os k of
        None \<Rightarrow> conflictsIn bs os
      | Some ov \<Rightarrow> map ((#) k) (conflictsAt bv ov) @ conflictsIn bs os)"

text \<open>
  Modelled from the spec: one step of step 4 of section 4.4. A later instance of the
  tier is merged under what the older ones have accumulated, so it adds only the
  fields not set before it; the fields on which it conflicts with them are reported
  as \<open>AmbiguousPolicy\<close>.
\<close>

definition preMergeStep ::
  "EffectivePolicy \<times> Warning list \<Rightarrow> PolicyInstance \<Rightarrow> EffectivePolicy \<times> Warning list" where
  "preMergeStep acc inst =
     (mergeLayers (layerOf inst) (fst acc),
      snd acc @ map AmbiguousPolicy (conflictsAt (fieldTree inst) (epValue (fst acc))))"

text \<open>
  Modelled from the spec: step 4 of section 4.4, the instances of one tier merged
  among themselves in the catalog's order, the oldest first: the oldest instance
  defines a field. A tier with no instance has no value.
\<close>

fun preMerge :: "PolicyInstance list \<Rightarrow> (EffectivePolicy \<times> Warning list) option" where
  "preMerge [] = None"
| "preMerge (oldest # later) = Some (foldl preMergeStep (layerOf oldest, []) later)"

text \<open>
  Modelled from the spec: step 5 of section 4.4 over the tiers, nearest first. The
  farthest tier's value is the first base; each nearer tier is merged over the result
  as the override, the target's own tier last. A tier with no value is passed over,
  and the conflicts of each merge are collected.
\<close>

fun accumulate ::
  "(EffectivePolicy \<times> Warning list) option list \<Rightarrow> (EffectivePolicy \<times> Warning list) option" where
  "accumulate [] = None"
| "accumulate (tier # farther) =
     (case accumulate farther of
        None \<Rightarrow> tier
      | Some (base, ws) \<Rightarrow>
          (case tier of
             None \<Rightarrow> Some (base, ws)
           | Some (override, ws') \<Rightarrow>
               Some (mergeLayers base override,
                     ws @ ws' @ mergeConflicts (epValue base) (epValue override))))"

text \<open>
  Modelled from the spec: the policies of one tier (steps 2 and 3 of section 4.4):
  those targeting the resource, filtered to the policy kind asked for.
\<close>

definition tierPolicies :: "PolicyCatalog \<Rightarrow> string \<Rightarrow> ResourceRef \<Rightarrow> PolicyInstance list" where
  "tierPolicies cat policyCRDKind ref =
     filter (\<lambda>inst. policyKind inst = policyCRDKind) (policiesTargeting cat ref)"

text \<open>
  Modelled from the spec: the condition of step 3 of section 4.4, that the policy kind
  is registered with the scope \<open>Inheritable\<close>.
\<close>

definition inheritable :: "PolicyCatalog \<Rightarrow> string \<Rightarrow> bool" where
  "inheritable cat policyCRDKind =
     (case crdFor cat policyCRDKind of
        None \<Rightarrow> False
      | Some crd \<Rightarrow> inheritanceScope crd = Inheritable)"

text \<open>Modelled from the spec: the empty result of section 4.4, failure semantics.\<close>

definition emptyPolicy :: EffectivePolicy where
  "emptyPolicy = \<lparr>epValue = Object [], provenance = (\<lambda>path. None)\<rparr>"

text \<open>
  Modelled from the spec: \<open>computeEffectivePolicy\<close> of section 4.4, whose code is not
  among the source files. The hierarchy resolver's \<open>ancestorChain\<close> (section 4.2) is a
  parameter: it gives the chain of the target, nearest ancestor first, with its
  warnings. A target whose kind no registered policy kind names gets the empty
  result with \<open>NoApplicablePolicy\<close>. Otherwise tier 0 holds the policies of the asked
  kind that target the target itself, whatever the scope of the kind; the tier of
  each ancestor holds the policies targeting it only when the kind is inheritable;
  each tier is merged within itself, and the tiers are accumulated from the farthest
  to the nearest.
\<close>

definition computeEffectivePolicy ::
  "(ResourceRef \<Rightarrow> 'g \<Rightarrow> ResourceRef list \<times> Warning list) \<Rightarrow> PolicyCatalog
     \<Rightarrow> ResourceRef \<Rightarrow> string \<Rightarrow> 'g \<Rightarrow> EffectivePolicy \<times> Warning list" where
  "computeEffectivePolicy ancestorChain cat target policyCRDKind graphSnapshot =
     (if \<not> list_ex (\<lambda>crd. refKind target \<in> set (targetKinds crd)) (crds cat)
      then (emptyPolicy, [NoApplicablePolicy])
      else
        let (chain, chainWarnings) = ancestorChain target graphSnapshot;
            direct = preMerge (tierPolicies cat policyCRDKind target);
            inherited = map (\<lambda>ancestor.
                               if inheritable cat policyCRDKind
                               then preMerge (tierPolicies cat policyCRDKind ancestor)
                               else None) chain
        in case accumulate (direct # inherited) of
             None \<Rightarrow> (emptyPolicy, chainWarnings)
           | Some (result, ws) \<Rightarrow> (result, chainWarnings @ ws))"

text \<open>The instances that the provenance of a result names.\<close>

definition contributors :: "EffectivePolicy \<Rightarrow> PolicyInstance set" where
  "contributors ep = {inst. \<exists>path. provenance ep path = Some inst}"

subsection \<open>The scenarios of section 8\<close>

text \<open>
  The resources and policies of scenarios A, B and C: a GatewayClass, a Gateway of
  that class and an HTTPRoute attached to the Gateway; an inheritable timeout policy
  kind with one instance on each of the three, and a direct-only access policy kind
  with one instance on the Gateway.
\<close>

definition gc1 :: ResourceRef where
  "gc1 = \<lparr>refKind = GatewayClass, refNamespace = [], refName = ''gc1''\<rparr>"

definition gw1 :: ResourceRef where
  "gw1 = \<lparr>refKind = Gateway, refNamespace = ''default'', refName = ''gw1''\<rparr>"

definition r1 :: ResourceRef where
  "r1 = \<lparr>refKind = HTTPRoute, refNamespace = ''default'', refName = ''r1''\<rparr>"

definition demoChain :: "ResourceRef \<Rightarrow> unit \<Rightarrow> ResourceRef list \<times> Warning list" where
  "demoChain ref g = (if ref = r1 then [gw1, gc1] else if ref = gw1 then [gc1] else [], [])"

definition timeoutCRD :: PolicyCRD where
  "timeoutCRD =
     \<lparr>groupKind = ''TimeoutPolicy'', targetKinds = [GatewayClass, Gateway, HTTPRoute],
      inheritanceScope = Inheritable\<rparr>"

definition accessCRD :: PolicyCRD where
  "accessCRD =
     \<lparr>groupKind = ''AccessPolicy'', targetKinds = [GatewayClass, Gateway, HTTPRoute],
      inheritanceScope = DirectOnly\<rparr>"

definition policyA :: PolicyInstance where
  "policyA =
     \<lparr>policyKind = ''TimeoutPolicy'', targetRef = gc1, creationTimestamp = 1,
      policyName = ''PolicyA'', fieldTree = Object [(''timeout'', Number 30)]\<rparr>"

definition policyB :: PolicyInstance where
  "policyB =
     \<lparr>policyKind = ''TimeoutPolicy'', targetRef = gw1, creationTimestamp = 2,
      policyName = ''PolicyB'',
      fieldTree = Object [(''timeout'', Number 10), (''retries'', Number 3)]\<rparr>"

definition policyC :: PolicyInstance where
  "policyC =
     \<lparr>policyKind = ''TimeoutPolicy'', targetRef = r1, creationTimestamp = 3,
      policyName = ''PolicyC'', fieldTree = Object [(''timeout'', Number 5)]\<rparr>"

definition policyD :: PolicyInstance where
  "policyD =
     \<lparr>policyKind = ''AccessPolicy'', targetRef = gw1, creationTimestamp = 3,
      policyName = ''PolicyD'', fieldTree = Object [(''allow'', List [String ''a''])]\<rparr>"

definition demoCatalog :: PolicyCatalog where
  "demoCatalog =
     \<lparr>crds = [timeoutCRD, accessCRD], instances = [policyC, policyD, policyB, policyA]\<rparr>"

text \<open>Two field trees for the merge engine.\<close>

definition baseTree :: PolicyValue where
  "baseTree =
     Object [(''timeout'', Number 30),
             (''limits'', Object [(''rps'', Number 100), (''burst'', List [Number 1, Number 2])]),
             (''hosts'', List [String ''a'', String ''b'']),
             (''mode'', Object [(''strict'', Bool True)])]"

definition overrideTree :: PolicyValue where
  "overrideTree =
     Object [(''timeout'', Number 10), (''retries'', Number 3),
             (''limits'', Object [(''burst'', List [Number 9])]),
             (''hosts'', List [String ''c'']),
             (''mode'', String ''off'')]"

section \<open>Properties of the merge engine\<close>

lemma map_of_mergeFields:
  "map_of (fst (mergeFields bs os)) k =
     (case map_of bs k of
        None \<Rightarrow> None
      | Some bv \<Rightarrow> (case map_of os k of None \<Rightarrow> Some bv | Some ov \<Rightarrow> Some (merge bv ov)))"
proof (induction bs)
  case Nil
  then show ?case by simp
next
  case (Cons field bs)
  obtain j bv where field: "field = (j, bv)" by (cases field)
  show ?case
    using Cons.IH by (cases "map_of os j") (simp_all add: field merge_def)
qed

lemma merge_Object_Object:
  "merge (Object bs) (Object os) =
     Object (fst (mergeFields bs os) @ filter (\<lambda>(k, v). map_of bs k = None) os)"
  by (simp add: merge_def)

lemma merge_not_Object_left: "typeOf base \<noteq> ObjectType \<Longrightarrow> merge base override = override"
  by (cases base) (simp_all add: merge_def)

lemma merge_not_Object_right: "typeOf override \<noteq> ObjectType \<Longrightarrow> merge base override = override"
  by (cases base; cases override) (simp_all add: merge_def)

lemma map_of_filter_keys:
  "map_of (filter (\<lambda>(k, v). P k) xs) k = (if P k then map_of xs k else None)"
  by (induction xs) auto

lemma map_of_merged_fields:
  "map_of (fst (mergeFields bs os) @ filter (\<lambda>(k, v). map_of bs k = None) os) k =
     (case map_of bs k of
        None \<Rightarrow> map_of os k
      | Some bv \<Rightarrow> (case map_of os k of None \<Rightarrow> Some bv | Some ov \<Rightarrow> Some (merge bv ov)))"
  by (simp add: map_add_def map_of_mergeFields map_of_filter_keys split: option.splits)

lemma valueAt_field_merge:
  "valueAt [k] (merge (Object bs) (Object os)) =
     (case map_of bs k of
        None \<Rightarrow> map_of os k
      | Some bv \<Rightarrow> (case map_of os k of None \<Rightarrow> Some bv | Some ov \<Rightarrow> Some (merge bv ov)))"
  by (simp add: merge_Object_Object map_of_merged_fields del: map_of_append split: option.splits)

lemma valueAt_Cons_merge_objects:
  "valueAt (k # path) (merge (Object bs) (Object os)) =
     (case map_of bs k of
        None \<Rightarrow> (case map_of os k of None \<Rightarrow> None | Some ov \<Rightarrow> valueAt path ov)
      | Some bv \<Rightarrow> (case map_of os k of None \<Rightarrow> valueAt path bv
                     | Some ov \<Rightarrow> valueAt path (merge bv ov)))"
  by (simp add: merge_Object_Object map_of_merged_fields del: map_of_append split: option.splits)

lemma valueAt_Cons_Some:
  "valueAt (k # path) v = Some x \<Longrightarrow> \<exists>fs v'. v = Object fs \<and> map_of fs k = Some v' \<and> valueAt path v' = Some x"
  by (cases v) (auto split: option.splits)

lemma valueAt_Cons_not_Object: "typeOf v \<noteq> ObjectType \<Longrightarrow> valueAt (k # path) v = None"
  by (cases v) auto

lemma override_leaf_wins:
  "valueAt path override = Some v \<Longrightarrow> typeOf v \<noteq> ObjectType
     \<Longrightarrow> valueAt path (merge base override) = Some v"
proof (induction path arbitrary: base override)
  case Nil
  then show ?case by (simp add: merge_not_Object_right)
next
  case (Cons k path)
  from Cons.prems(1) obtain os ov where o: "override = Object os" "map_of os k = Some ov"
      "valueAt path ov = Some v"
    using valueAt_Cons_Some by blast
  show ?case
  proof (cases "typeOf base = ObjectType")
    case False
    then show ?thesis using Cons.prems(1) by (simp add: merge_not_Object_left)
  next
    case True
    then obtain bs where b: "base = Object bs" by (cases base) auto
    show ?thesis
      using o Cons.IH [OF o(3) Cons.prems(2)]
      by (simp add: b valueAt_Cons_merge_objects split: option.splits)
  qed
qed

lemma both_present_merged:
  "valueAt path base = Some bv \<Longrightarrow> valueAt path override = Some ov
     \<Longrightarrow> valueAt path (merge base override) = Some (merge bv ov)"
proof (induction path arbitrary: base override)
  case Nil
  then show ?case by simp
next
  case (Cons k path)
  from Cons.prems(1) obtain bs b' where b: "base = Object bs" "map_of bs k = Some b'"
      "valueAt path b' = Some bv"
    using valueAt_Cons_Some by blast
  from Cons.prems(2) obtain os o' where o: "override = Object os" "map_of os k = Some o'"
      "valueAt path o' = Some ov"
    using valueAt_Cons_Some by blast
  show ?case
    using b o Cons.IH [OF b(3) o(3)] by (simp add: valueAt_Cons_merge_objects)
qed

lemma absent_field_keeps_base:
  "valueAt path override = Some (Object os) \<Longrightarrow> map_of os k = None
     \<Longrightarrow> valueAt (path @ k # rest) (merge base override) = valueAt (path @ k # rest) base"
proof (induction path arbitrary: base override)
  case Nil
  then have o: "override = Object os" by simp
  show ?case
  proof (cases "typeOf base = ObjectType")
    case False
    then show ?thesis
      using Nil.prems(2) by (simp add: o merge_not_Object_left valueAt_Cons_not_Object)
  next
    case True
    then obtain bs where b: "base = Object bs" by (cases base) auto
    show ?thesis
      using Nil.prems(2) by (simp add: o b valueAt_Cons_merge_objects split: option.splits)
  qed
next
  case (Cons j path)
  from Cons.prems(1) obtain os0 o' where o: "override = Object os0" "map_of os0 j = Some o'"
      "valueAt path o' = Some (Object os)"
    using valueAt_Cons_Some by blast
  have gone: "valueAt (path @ k # rest) o' = None"
    using o(3) Cons.prems(2)
  proof (induction path arbitrary: o')
    case Nil
    then show ?case by simp
  next
    case (Cons i path)
    then show ?case
      by (cases o') (auto split: option.splits)
  qed
  show ?case
  proof (cases "typeOf base = ObjectType")
    case False
    then show ?thesis
      using o gone by (simp add: merge_not_Object_left valueAt_Cons_not_Object)
  next
    case True
    then obtain bs where b: "base = Object bs" by (cases base) auto
    show ?thesis
      using o gone Cons.IH [OF o(3) Cons.prems(2)]
      by (simp add: b valueAt_Cons_merge_objects split: option.splits)
  qed
qed

lemma conflicts_of_field:
  "map_of bs k = Some bv \<Longrightarrow> map_of os k = Some ov
     \<Longrightarrow> (#) k ` set (snd (mergeReport bv ov)) \<subseteq> set (snd (mergeFields bs os))"
proof (induction bs)
  case Nil
  then show ?case by simp
next
  case (Cons field bs)
  obtain j bv' where field: "field = (j, bv')" by (cases field)
  show ?case
  proof (cases "j = k")
    case True
    then show ?thesis using Cons.prems by (auto simp add: field)
  next
    case False
    then have "(#) k ` set (snd (mergeReport bv ov)) \<subseteq> set (snd (mergeFields bs os))"
      using Cons by (simp add: field)
    then show ?thesis
      by (cases "map_of os j") (auto simp add: field)
  qed
qed

lemma mismatch_recorded:
  "valueAt path base = Some bv \<Longrightarrow> valueAt path override = Some ov \<Longrightarrow> typeOf bv \<noteq> typeOf ov
     \<Longrightarrow> path \<in> set (snd (mergeReport base override))"
proof (induction path arbitrary: base override)
  case Nil
  then show ?case by (cases base; cases override) auto
next
  case (Cons k path)
  from Cons.prems(1) obtain bs b' where b: "base = Object bs" "map_of bs k = Some b'"
      "valueAt path b' = Some bv"
    using valueAt_Cons_Some by blast
  from Cons.prems(2) obtain os o' where o: "override = Object os" "map_of os k = Some o'"
      "valueAt path o' = Some ov"
    using valueAt_Cons_Some by blast
  have "path \<in> set (snd (mergeReport b' o'))"
    by (rule Cons.IH [OF b(3) o(3) Cons.prems(3)])
  then show ?case
    using conflicts_of_field [OF b(2) o(2)] by (auto simp add: b o)
qed

lemma valueAt_append:
  "valueAt (path @ rest) v = (case valueAt path v of None \<Rightarrow> None | Some x \<Rightarrow> valueAt rest x)"
proof (induction path arbitrary: v)
  case Nil
  then show ?case by simp
next
  case (Cons k path)
  then show ?case by (cases v) (simp_all split: option.splits)
qed

lemma merge_mismatch: "typeOf bv \<noteq> typeOf ov \<Longrightarrow> merge bv ov = ov"
  by (cases bv; cases ov) (simp_all add: merge_def)


text \<open>
  C2. For every base and override and every field path: where override holds a
  scalar, Null or a list, the merged tree holds override's value there (a list as a
  whole, whatever base holds); where a field is absent from an object of override,
  the merged tree holds at that field, and below it, what base holds; where both
  hold objects, the merged tree holds their merge, whose fields are the recursive
  merge of a field both have and the unchanged value of a field only one has.
\<close>

theorem merge_semantics:
  "(valueAt path override = Some v \<and> typeOf v \<noteq> ObjectType \<longrightarrow>
      valueAt path (merge base override) = Some v)
   \<and> (valueAt path override = Some (List xs) \<longrightarrow>
      valueAt path (merge base override) = Some (List xs))
   \<and> (valueAt path override = Some (Object os) \<and> map_of os k = None \<longrightarrow>
      valueAt (path @ k # rest) (merge base override) = valueAt (path @ k # rest) base)
   \<and> (valueAt path base = Some (Object bs) \<and> valueAt path override = Some (Object os) \<longrightarrow>
      valueAt path (merge base override) = Some (merge (Object bs) (Object os))
      \<and> valueAt (path @ [k]) (merge base override) =
          (case map_of bs k of
             None \<Rightarrow> map_of os k
           | Some bv \<Rightarrow> (case map_of os k of None \<Rightarrow> Some bv | Some ov \<Rightarrow> Some (merge bv ov))))"
proof (intro conjI impI)
  assume "valueAt path override = Some v \<and> typeOf v \<noteq> ObjectType"
  then show "valueAt path (merge base override) = Some v"
    by (simp add: override_leaf_wins)
next
  assume "valueAt path override = Some (List xs)"
  then show "valueAt path (merge base override) = Some (List xs)"
    by (simp add: override_leaf_wins)
next
  assume "valueAt path override = Some (Object os) \<and> map_of os k = None"
  then show "valueAt (path @ k # rest) (merge base override) = valueAt (path @ k # rest) base"
    by (simp add: absent_field_keeps_base)
next
  assume both: "valueAt path base = Some (Object bs) \<and> valueAt path override = Some (Object os)"
  then show at: "valueAt path (merge base override) = Some (merge (Object bs) (Object os))"
    by (simp add: both_present_merged)
  show "valueAt (path @ [k]) (merge base override) =
          (case map_of bs k of
             None \<Rightarrow> map_of os k
           | Some bv \<Rightarrow> (case map_of os k of None \<Rightarrow> Some bv | Some ov \<Rightarrow> Some (merge bv ov)))"
    using at valueAt_field_merge [of k bs os] by (simp add: valueAt_append)
qed

theorem merge_semantics_witness:
  "valueAt [''timeout''] (merge baseTree overrideTree) = Some (Number 10)
   \<and> valueAt [''hosts''] (merge baseTree overrideTree) = Some (List [String ''c''])
   \<and> valueAt [''limits'', ''rps''] (merge baseTree overrideTree) = Some (Number 100)
   \<and> valueAt [''limits'', ''burst''] (merge baseTree overrideTree) = Some (List [Number 9])
   \<and> valueAt [''retries''] (merge baseTree overrideTree) = Some (Number 3)"
proof -
  have 1: "valueAt [''timeout''] overrideTree = Some (Number 10)
      \<and> typeOf (Number 10) \<noteq> ObjectType"
    by (simp add: overrideTree_def)
  have 2: "valueAt [''hosts''] overrideTree = Some (List [String ''c''])"
    by (simp add: overrideTree_def)
  have 3: "valueAt [''limits''] overrideTree = Some (Object [(''burst'', List [Number 9])])
      \<and> map_of [(''burst'', List [Number 9])] ''rps'' = None"
    by (simp add: overrideTree_def)
  have 4: "valueAt [''limits''] baseTree =
        Some (Object [(''rps'', Number 100), (''burst'', List [Number 1, Number 2])])
      \<and> valueAt [''limits''] overrideTree = Some (Object [(''burst'', List [Number 9])])"
    by (simp add: baseTree_def overrideTree_def)
  have 5: "valueAt [] baseTree = Some (Object [(''timeout'', Number 30),
             (''limits'', Object [(''rps'', Number 100), (''burst'', List [Number 1, Number 2])]),
             (''hosts'', List [String ''a'', String ''b'']),
             (''mode'', Object [(''strict'', Bool True)])])
      \<and> valueAt [] overrideTree = Some (Object [(''timeout'', Number 10), (''retries'', Number 3),
             (''limits'', Object [(''burst'', List [Number 9])]),
             (''hosts'', List [String ''c'']),
             (''mode'', String ''off'')])"
    by (simp add: baseTree_def overrideTree_def)
  have a: "valueAt [''timeout''] (merge baseTree overrideTree) = Some (Number 10)"
    by (rule merge_semantics [THEN conjunct1, THEN mp, OF 1])
  have b: "valueAt [''hosts''] (merge baseTree overrideTree) = Some (List [String ''c''])"
    by (rule merge_semantics [THEN conjunct2, THEN conjunct1, THEN mp, OF 2])
  have c: "valueAt ([''limits''] @ ''rps'' # []) (merge baseTree overrideTree) =
      valueAt ([''limits''] @ ''rps'' # []) baseTree"
    by (rule merge_semantics [THEN conjunct2, THEN conjunct2, THEN conjunct1, THEN mp, OF 3])
  have d: "valueAt ([''limits''] @ [''burst'']) (merge baseTree overrideTree) =
      (case map_of [(''rps'', Number 100), (''burst'', List [Number 1, Number 2])] ''burst'' of
         None \<Rightarrow> map_of [(''burst'', List [Number 9])] ''burst''
       | Some bv \<Rightarrow> (case map_of [(''burst'', List [Number 9])] ''burst'' of
                       None \<Rightarrow> Some bv | Some ov \<Rightarrow> Some (merge bv ov)))"
    by (rule merge_semantics [THEN conjunct2, THEN conjunct2, THEN conjunct2, THEN mp, OF 4,
          THEN conjunct2])
  have e: "valueAt ([] @ [''retries'']) (merge baseTree overrideTree) =
      (case map_of [(''timeout'', Number 30),
             (''limits'', Object [(''rps'', Number 100), (''burst'', List [Number 1, Number 2])]),
             (''hosts'', List [String ''a'', String ''b'']),
             (''mode'', Object [(''strict'', Bool True)])] ''retries'' of
         None \<Rightarrow> map_of [(''timeout'', Number 10), (''retries'', Number 3),
             (''limits'', Object [(''burst'', List [Number 9])]),
             (''hosts'', List [String ''c'']),
             (''mode'', String ''off'')] ''retries''
       | Some bv \<Rightarrow> (case map_of [(''timeout'', Number 10), (''retries'', Number 3),
             (''limits'', Object [(''burst'', List [Number 9])]),
             (''hosts'', List [String ''c'']),
             (''mode'', String ''off'')] ''retries'' of
                       None \<Rightarrow> Some bv | Some ov \<Rightarrow> Some (merge bv ov)))"
    by (rule merge_semantics [THEN conjunct2, THEN conjunct2, THEN conjunct2, THEN mp, OF 5,
          THEN conjunct2])
  have c': "valueAt [''limits'', ''rps''] (merge baseTree overrideTree) = Some (Number 100)"
    using c by (simp add: baseTree_def)
  have d': "valueAt [''limits'', ''burst''] (merge baseTree overrideTree) = Some (List [Number 9])"
    using d by (simp add: merge_def)
  have e': "valueAt [''retries''] (merge baseTree overrideTree) = Some (Number 3)"
    using e by simp
  show ?thesis
    using a b c' d' e' by (intro conjI)
qed

text \<open>
  C6. For every base and override and every field path at which both hold a value
  and the two values are of different types, the merged tree holds override's value
  at that path and a \<open>MergeConflict\<close> for that path is among the warnings recorded.
  The merge has no failing outcome: it returns the merged tree with its warnings.
\<close>

theorem type_mismatch_override_wins:
  assumes "valueAt path base = Some bv" and "valueAt path override = Some ov"
    and "typeOf bv \<noteq> typeOf ov"
  shows "valueAt path (merge base override) = Some ov
         \<and> MergeConflict path \<in> set (mergeConflicts base override)"
  using both_present_merged [OF assms(1,2)] merge_mismatch [OF assms(3)]
    mismatch_recorded [OF assms]
  by (simp add: mergeConflicts_def)

theorem type_mismatch_override_wins_witness:
  "valueAt [''mode''] baseTree = Some (Object [(''strict'', Bool True)])
   \<and> valueAt [''mode''] overrideTree = Some (String ''off'')
   \<and> valueAt [''mode''] (merge baseTree overrideTree) = Some (String ''off'')
   \<and> MergeConflict [''mode''] \<in> set (mergeConflicts baseTree overrideTree)"
proof -
  have 1: "valueAt [''mode''] baseTree = Some (Object [(''strict'', Bool True)])"
    by (simp add: baseTree_def)
  have 2: "valueAt [''mode''] overrideTree = Some (String ''off'')"
    by (simp add: overrideTree_def)
  have 3: "typeOf (Object [(''strict'', Bool True)]) \<noteq> typeOf (String ''off'')"
    by simp
  show ?thesis
    using 1 2 type_mismatch_override_wins [OF 1 2 3] by simp
qed

section \<open>Properties of the calculator\<close>

lemma contributors_layerOf: "contributors (layerOf inst) \<subseteq> {inst}"
  by (auto simp add: contributors_def layerOf_def split: if_splits)

lemma contributors_mergeLayers:
  "contributors (mergeLayers base override) \<subseteq> contributors base \<union> contributors override"
  by (auto simp add: contributors_def mergeLayers_def split: if_splits)

lemma contributors_preMergeStep:
  "contributors (fst (preMergeStep acc inst)) \<subseteq> contributors (fst acc) \<union> {inst}"
proof -
  have "contributors (fst (preMergeStep acc inst)) \<subseteq>
      contributors (layerOf inst) \<union> contributors (fst acc)"
    unfolding preMergeStep_def fst_conv by (rule contributors_mergeLayers)
  then show ?thesis
    using contributors_layerOf [of inst] by blast
qed

lemma contributors_foldl:
  "contributors (fst (foldl preMergeStep acc later)) \<subseteq> contributors (fst acc) \<union> set later"
proof (induction later arbitrary: acc)
  case Nil
  then show ?case by simp
next
  case (Cons inst later)
  have "contributors (fst (foldl preMergeStep (preMergeStep acc inst) later)) \<subseteq>
      contributors (fst (preMergeStep acc inst)) \<union> set later"
    by (rule Cons.IH)
  then have "contributors (fst (foldl preMergeStep (preMergeStep acc inst) later)) \<subseteq>
      contributors (fst acc) \<union> {inst} \<union> set later"
    using contributors_preMergeStep [of acc inst] by blast
  then show ?case by auto
qed

lemma contributors_preMerge:
  assumes "preMerge insts = Some (ep, ws)"
  shows "contributors ep \<subseteq> set insts"
proof (cases insts)
  case Nil
  with assms show ?thesis by simp
next
  case (Cons oldest later)
  with assms have ep: "ep = fst (foldl preMergeStep (layerOf oldest, []) later)"
    by simp
  have "contributors ep \<subseteq> contributors (fst (layerOf oldest, [] :: Warning list)) \<union> set later"
    unfolding ep by (rule contributors_foldl)
  then have "contributors ep \<subseteq> {oldest} \<union> set later"
    using contributors_layerOf [of oldest] by auto
  then show ?thesis
    by (simp add: Cons)
qed

lemma accumulate_no_inherited:
  "accumulate (direct # map (\<lambda>ancestor. None) chain) = direct"
proof -
  have none: "accumulate (map (\<lambda>ancestor. None) chain) = None" for chain :: "'a list"
    by (induction chain) simp_all
  show ?thesis
    by (simp add: none)
qed

lemma set_tierPolicies:
  "set (tierPolicies cat policyCRDKind ref) =
     {inst \<in> set (instances cat). targetRef inst = ref \<and> policyKind inst = policyCRDKind}"
  by (auto simp add: tierPolicies_def policiesTargeting_def)

lemma compute_not_inheritable:
  assumes "\<not> inheritable cat policyCRDKind"
  shows "computeEffectivePolicy ancestorChain cat target policyCRDKind graphSnapshot =
     (if \<not> list_ex (\<lambda>crd. refKind target \<in> set (targetKinds crd)) (crds cat)
      then (emptyPolicy, [NoApplicablePolicy])
      else case preMerge (tierPolicies cat policyCRDKind target) of
             None \<Rightarrow> (emptyPolicy, snd (ancestorChain target graphSnapshot))
           | Some (result, ws) \<Rightarrow> (result, snd (ancestorChain target graphSnapshot) @ ws))"
proof -
  obtain chain chainWarnings where
    chain: "ancestorChain target graphSnapshot = (chain, chainWarnings)"
    by (cases "ancestorChain target graphSnapshot")
  show ?thesis
    unfolding computeEffectivePolicy_def chain
    by (simp only: assms if_False accumulate_no_inherited Let_def prod.case snd_conv)
qed

text \<open>
  C4. For every target, every hierarchy resolver and snapshot, and every policy
  instance attached to another resource than the target (so to any strict ancestor)
  whose kind is registered with the scope \<open>DirectOnly\<close>: the result of
  \<open>computeEffectivePolicy\<close> for the target and that kind is the same with and
  without the instance in the catalog, and the provenance of the result names the
  instance at no field path.
\<close>

theorem direct_only_not_inherited:
  assumes "crdFor cat (policyKind inst) = Some crd"
    and "inheritanceScope crd = DirectOnly"
    and "targetRef inst \<noteq> target"
  shows "computeEffectivePolicy ancestorChain (cat\<lparr>instances := before @ inst # after\<rparr>) target
           (policyKind inst) graphSnapshot =
         computeEffectivePolicy ancestorChain (cat\<lparr>instances := before @ after\<rparr>) target
           (policyKind inst) graphSnapshot
       \<and> provenance (fst (computeEffectivePolicy ancestorChain
           (cat\<lparr>instances := before @ inst # after\<rparr>) target (policyKind inst) graphSnapshot)) path
         \<noteq> Some inst"
proof
  let ?with = "cat\<lparr>instances := before @ inst # after\<rparr>"
  let ?without = "cat\<lparr>instances := before @ after\<rparr>"
  let ?direct = "tierPolicies ?with (policyKind inst) target"
  have scope: "\<not> inheritable ?with (policyKind inst)" "\<not> inheritable ?without (policyKind inst)"
    using assms(1,2) by (simp_all add: inheritable_def crdFor_def)
  have direct: "tierPolicies ?without (policyKind inst) target = ?direct"
    using assms(3) by (simp add: tierPolicies_def policiesTargeting_def)
  have kinds: "crds ?with = crds cat" "crds ?without = crds cat"
    by simp_all
  show "computeEffectivePolicy ancestorChain ?with target (policyKind inst) graphSnapshot =
      computeEffectivePolicy ancestorChain ?without target (policyKind inst) graphSnapshot"
    unfolding compute_not_inheritable [OF scope(1)] compute_not_inheritable [OF scope(2)]
      direct kinds
    by (rule refl)
  show "provenance (fst (computeEffectivePolicy ancestorChain ?with target (policyKind inst)
      graphSnapshot)) path \<noteq> Some inst"
  proof
    assume named: "provenance (fst (computeEffectivePolicy ancestorChain ?with target
      (policyKind inst) graphSnapshot)) path = Some inst"
    have no_empty: "provenance emptyPolicy path \<noteq> Some inst"
      by (simp add: emptyPolicy_def)
    show False
    proof (cases "preMerge ?direct")
      case None
      have "fst (computeEffectivePolicy ancestorChain ?with target (policyKind inst) graphSnapshot)
          = emptyPolicy"
        unfolding compute_not_inheritable [OF scope(1)] None by simp
      then show ?thesis
        using named no_empty by simp
    next
      case (Some layer)
      obtain ep ws where layer: "layer = (ep, ws)" by (cases layer)
      have "fst (computeEffectivePolicy ancestorChain ?with target (policyKind inst) graphSnapshot)
          = emptyPolicy
        \<or> fst (computeEffectivePolicy ancestorChain ?with target (policyKind inst) graphSnapshot)
          = ep"
        unfolding compute_not_inheritable [OF scope(1)] Some layer by simp
      then have "provenance ep path = Some inst"
        using named no_empty by auto
      then have "inst \<in> contributors ep"
        unfolding contributors_def by blast
      moreover have "contributors ep \<subseteq> set ?direct"
        using Some layer by (intro contributors_preMerge [of _ ep ws]) simp
      ultimately have "inst \<in> set ?direct"
        by blast
      then show ?thesis
        using assms(3) by (simp add: set_tierPolicies)
    qed
  qed
qed

theorem direct_only_not_inherited_witness:
  "gw1 \<in> set (fst (demoChain r1 ()))
   \<and> computeEffectivePolicy demoChain demoCatalog r1 ''AccessPolicy'' () =
     computeEffectivePolicy demoChain (demoCatalog\<lparr>instances := [policyC, policyB, policyA]\<rparr>)
       r1 ''AccessPolicy'' ()
   \<and> provenance (fst (computeEffectivePolicy demoChain demoCatalog r1 ''AccessPolicy'' ()))
       [''allow''] \<noteq> Some policyD
   \<and> epValue (fst (computeEffectivePolicy demoChain demoCatalog r1 ''AccessPolicy'' ())) = Object []
   \<and> epValue (fst (computeEffectivePolicy demoChain demoCatalog gw1 ''AccessPolicy'' ())) =
     Object [(''allow'', List [String ''a''])]"
proof -
  have crd: "crdFor demoCatalog (policyKind policyD) = Some accessCRD"
    by (simp add: crdFor_def demoCatalog_def policyD_def timeoutCRD_def accessCRD_def)
  have scope: "inheritanceScope accessCRD = DirectOnly"
    by (simp add: accessCRD_def)
  have other: "targetRef policyD \<noteq> r1"
    by (simp add: policyD_def gw1_def r1_def)
  have cat: "demoCatalog\<lparr>instances := [policyC] @ policyD # [policyB, policyA]\<rparr> = demoCatalog"
    by (simp add: demoCatalog_def)
  have rest: "[policyC] @ [policyB, policyA] = [policyC, policyB, policyA]"
    by simp
  have kind: "policyKind policyD = ''AccessPolicy''"
    by (simp add: policyD_def)
  have chain: "gw1 \<in> set (fst (demoChain r1 ()))"
    by (simp add: demoChain_def)
  have route: "epValue (fst (computeEffectivePolicy demoChain demoCatalog r1 ''AccessPolicy'' ()))
      = Object []"
    by code_simp
  have gateway: "epValue (fst (computeEffectivePolicy demoChain demoCatalog gw1 ''AccessPolicy'' ()))
      = Object [(''allow'', List [String ''a''])]"
    by code_simp
  have main: "computeEffectivePolicy demoChain demoCatalog r1 ''AccessPolicy'' () =
        computeEffectivePolicy demoChain (demoCatalog\<lparr>instances := [policyC, policyB, policyA]\<rparr>)
          r1 ''AccessPolicy'' ()
      \<and> provenance (fst (computeEffectivePolicy demoChain demoCatalog r1 ''AccessPolicy'' ()))
          [''allow''] \<noteq> Some policyD"
    using direct_only_not_inherited [OF crd scope other, of demoChain "[policyC]"
        "[policyB, policyA]" "()" "[''allow'']"]
    unfolding cat rest kind .
  show ?thesis
    by (intro conjI, rule chain, rule main [THEN conjunct1], rule main [THEN conjunct2],
        rule route, rule gateway)
qed

section \<open>Properties of the command layer\<close>

lemma readNamespace_describe_flags:
  "readNamespace (parseFlags call NewDescribeCommand_flags) = Inr (effectiveNamespace call)"
  by (cases "namespaceArg call"; cases "allNamespacesArg call")
     (simp_all add: readNamespace_def parseFlags_def NewDescribeCommand_flags_def
        GetString_def GetBool_def effectiveNamespace_def)

lemma readNamespace_get_flags:
  "readNamespace (parseFlags call NewGetCommand_flags) = Inr (effectiveNamespace call)"
  by (cases "namespaceArg call"; cases "allNamespacesArg call")
     (simp_all add: readNamespace_def parseFlags_def NewGetCommand_flags_def
        GetString_def GetBool_def effectiveNamespace_def)

lemma runDescribe_command:
  "runDescribe (parseFlags call NewDescribeCommand_flags) (kind # rest) params =
     describeSwitch (effectiveNamespace call) kind rest params"
  by (simp add: runDescribe_def readNamespace_describe_flags)

lemma runGet_command:
  "runGet (parseFlags call NewGetCommand_flags) (kind # rest) params =
     getSwitch (effectiveNamespace call) kind params"
  by (simp add: runGet_def readNamespace_get_flags)

lemma fatal_fields:
  "out (fatal msg) = [] \<and> errOut (fatal msg) = [msg] \<and> status (fatal msg) = Exited 1"
  by (simp add: fatal_def)

text \<open>
  C7, as amended. A failed read of either flag, and an error returned by any list or
  get of HTTPRoutes, Gateways, GatewayClasses or backends (a named one that is absent
  included), writes the error's message to the error stream, prints nothing and ends
  the command with exit code 1, in describe and in get. The lookup of a named policy
  is not part of the statement.
\<close>

theorem fetch_error_exits_1:
  fixes params :: "('p, 'c, 'r, 'g, 'k, 'b) CmdParams"
  shows
  "(GetString flags ''namespace'' = Inl e \<longrightarrow>
      runDescribe flags (kind # rest) params =
        fatal (''failed to read flag '' @ [CHR 0x22] @ ''namespace'' @ [CHR 0x22] @ '': ''
               @ e @ [CHR 0x0A])
      \<and> runGet flags (kind # rest) params =
        fatal (''failed to read flag '' @ [CHR 0x22] @ ''namespace'' @ [CHR 0x22] @ '': ''
               @ e @ [CHR 0x0A]))
   \<and> (GetString flags ''namespace'' = Inr s \<and> GetBool flags ''all-namespaces'' = Inl e \<longrightarrow>
      runDescribe flags (kind # rest) params =
        fatal (''failed to read flag '' @ [CHR 0x22] @ ''all-namespaces'' @ [CHR 0x22]
               @ '': '' @ e @ [CHR 0x0A])
      \<and> runGet flags (kind # rest) params =
        fatal (''failed to read flag '' @ [CHR 0x22] @ ''all-namespaces'' @ [CHR 0x22]
               @ '': '' @ e @ [CHR 0x0A]))
   \<and> (readNamespace flags = Inr ns \<longrightarrow>
        ((kind = ''httproute'' \<or> kind = ''httproutes'') \<longrightarrow>
           (ListHTTPRoutes params ns = Inl e \<longrightarrow>
              runDescribe flags [kind] params =
                fatal (''failed to list HTTPRoute resources: '' @ e @ [CHR 0x0A])
              \<and> runGet flags (kind # rest) params =
                fatal (''failed to list HTTPRoute resources: '' @ e @ [CHR 0x0A]))
           \<and> (GetHTTPRoute params ns name = Inl e \<longrightarrow>
              runDescribe flags (kind # name # others) params =
                fatal (''failed to get HTTPRoute resource: '' @ e @ [CHR 0x0A])))
      \<and> ((kind = ''gateway'' \<or> kind = ''gateways'') \<longrightarrow>
           (ListGateways params ns = Inl e \<longrightarrow>
              runDescribe flags [kind] params =
                fatal (''failed to list Gateway resources: '' @ e @ [CHR 0x0A]))
           \<and> (GetGateways params ns name = Inl e \<longrightarrow>
              runDescribe flags (kind # name # others) params =
                fatal (''failed to get Gateway resource: '' @ e @ [CHR 0x0A])))
      \<and> ((kind = ''gatewayclass'' \<or> kind = ''gatewayclasses'') \<longrightarrow>
           (ListGatewayClasses params = Inl e \<longrightarrow>
              runDescribe flags [kind] params =
                fatal (''failed to list GatewayClass resources: '' @ e @ [CHR 0x0A]))
           \<and> (GetGatewayClass params name = Inl e \<longrightarrow>
              runDescribe flags (kind # name # others) params =
                fatal (''failed to get GatewayClass resource: '' @ e @ [CHR 0x0A])))
      \<and> ((kind = ''backend'' \<or> kind = ''backends'') \<longrightarrow>
           (ListBackends params ''service'' ns = Inl e \<longrightarrow>
              runDescribe flags [kind] params =
                fatal (''failed to list Backend resources: '' @ e @ [CHR 0x0A]))
           \<and> (GetBackend params ''service'' ns name = Inl e \<longrightarrow>
              runDescribe flags (kind # name # others) params =
                fatal (''failed to get Backend resource: '' @ e @ [CHR 0x0A]))))
   \<and> out (fatal msg :: ('p, 'c, 'r, 'g, 'k, 'b) Result) = []
   \<and> errOut (fatal msg :: ('p, 'c, 'r, 'g, 'k, 'b) Result) = [msg]
   \<and> status (fatal msg :: ('p, 'c, 'r, 'g, 'k, 'b) Result) = Exited 1"
proof -
  have flags1: "GetString flags ''namespace'' = Inl e \<Longrightarrow>
      readNamespace flags = Inl (''failed to read flag '' @ [CHR 0x22] @ ''namespace''
        @ [CHR 0x22] @ '': '' @ e @ [CHR 0x0A])"
    by (simp add: readNamespace_def)
  have flags2: "GetString flags ''namespace'' = Inr s \<Longrightarrow> GetBool flags ''all-namespaces'' = Inl e
      \<Longrightarrow> readNamespace flags = Inl (''failed to read flag '' @ [CHR 0x22] @ ''all-namespaces''
        @ [CHR 0x22] @ '': '' @ e @ [CHR 0x0A])"
    by (simp add: readNamespace_def)
  show ?thesis
    by (intro conjI impI; (elim conjE disjE)?;
        simp add: flags1 flags2 runDescribe_def runGet_def describeSwitch_def getSwitch_def
          fatal_def)
qed

theorem fetch_error_exits_1_witness:
  "GetHTTPRoute demoParams ''default'' ''nope'' = Inl ''nope not found''
   \<and> runDescribe (parseFlags \<lparr>namespaceArg = None, allNamespacesArg = None\<rparr> NewDescribeCommand_flags)
        [''httproute'', ''nope''] demoParams =
      \<lparr>out = [], errOut = [''failed to get HTTPRoute resource: nope not found'' @ [CHR 0x0A]],
       lookups = [], status = Exited 1\<rparr>
   \<and> GetString Map.empty ''namespace'' = Inl ''flag accessed but not defined: namespace''
   \<and> status (runGet Map.empty [''policies''] demoParams) = Exited 1"
proof -
  let ?flags = "parseFlags \<lparr>namespaceArg = None, allNamespacesArg = None\<rparr> NewDescribeCommand_flags"
  have ns: "readNamespace ?flags = Inr ''default''"
    by (simp add: readNamespace_describe_flags effectiveNamespace_def)
  have absent: "GetHTTPRoute demoParams ''default'' ''nope'' = Inl ''nope not found''"
    by (simp add: demoParams_def notFound_def)
  have undefined_flag: "GetString Map.empty ''namespace'' = Inl ''flag accessed but not defined: namespace''"
    by (simp add: GetString_def)
  from fetch_error_exits_1 [where flags = ?flags and ns = "''default''" and kind = "''httproute''"
      and name = "''nope''" and e = "''nope not found''" and params = demoParams and others = "[]"]
    ns absent
  have 1: "runDescribe ?flags [''httproute'', ''nope''] demoParams =
      fatal (''failed to get HTTPRoute resource: '' @ ''nope not found'' @ [CHR 0x0A])"
    by blast
  from fetch_error_exits_1 [where flags = Map.empty and kind = "''policies''" and rest = "[]"
      and e = "''flag accessed but not defined: namespace''" and params = demoParams]
    undefined_flag
  have 2: "runGet Map.empty [''policies''] demoParams =
      fatal (''failed to read flag '' @ [CHR 0x22] @ ''namespace'' @ [CHR 0x22] @ '': ''
               @ ''flag accessed but not defined: namespace'' @ [CHR 0x0A])"
    by blast
  show ?thesis
    using 1 2 absent undefined_flag by (simp add: fatal_def)
qed

text \<open>
  C7 as stated fails: describing a named policy that the policy manager does not hold,
  under either key, writes nothing to the error stream and returns, so the command
  ends with exit code 0.
\<close>

theorem describe_missing_policy_returns:
  "GetPolicy demoParams ''default/nope'' = None \<and> GetPolicy demoParams ''/nope'' = None
   \<and> NewDescribeCommand \<lparr>namespaceArg = None, allNamespacesArg = None\<rparr> [''policy'', ''nope'']
        demoParams =
      Some \<lparr>out = [PoliciesDescribeView []], errOut = [],
            lookups = [''default/nope'', ''/nope''], status = Returned\<rparr>"
  by (simp add: NewDescribeCommand_def runDescribe_command effectiveNamespace_def
      describeSwitch_def describePolicies_def demoParams_def)

text \<open>
  C8. With the flags the command registers, whatever the command line gave, a resource
  type that is none of the names of the switch makes describe, and likewise get, write
  the one message to the error stream, print nothing and return: \<open>os.Exit\<close> is not
  called.
\<close>

theorem unrecognized_resource_type:
  "(kind \<notin> {''policy'', ''policies'', ''httproute'', ''httproutes'', ''gateway'', ''gateways'',
             ''gatewayclass'', ''gatewayclasses'', ''backend'', ''backends''} \<longrightarrow>
      runDescribe (parseFlags call NewDescribeCommand_flags) (kind # rest) params =
        \<lparr>out = [], errOut = [''Unrecognized RESOURCE_TYPE'' @ [CHR 0x0A]], lookups = [],
         status = Returned\<rparr>)
   \<and> (kind \<notin> {''policy'', ''policies'', ''policycrds'', ''httproute'', ''httproutes''} \<longrightarrow>
      runGet (parseFlags call NewGetCommand_flags) (kind # rest) params =
        \<lparr>out = [], errOut = [''Unrecognized RESOURCE_TYPE'' @ [CHR 0x0A]], lookups = [],
         status = Returned\<rparr>)"
  by (simp add: runDescribe_command runGet_command describeSwitch_def getSwitch_def
      unrecognized_def)

theorem unrecognized_resource_type_witness:
  "NewDescribeCommand \<lparr>namespaceArg = Some ''prod'', allNamespacesArg = None\<rparr> [''pods'', ''p1'']
       demoParams =
     Some \<lparr>out = [], errOut = [''Unrecognized RESOURCE_TYPE'' @ [CHR 0x0A]], lookups = [],
           status = Returned\<rparr>
   \<and> NewGetCommand \<lparr>namespaceArg = None, allNamespacesArg = Some True\<rparr> [''gateways'']
       demoParams =
     Some \<lparr>out = [], errOut = [''Unrecognized RESOURCE_TYPE'' @ [CHR 0x0A]], lookups = [],
           status = Returned\<rparr>"
proof -
  have 1: "''pods'' \<notin> {''policy'', ''policies'', ''httproute'', ''httproutes'', ''gateway'',
      ''gateways'', ''gatewayclass'', ''gatewayclasses'', ''backend'', ''backends''}"
    by simp
  have 2: "''gateways'' \<notin> {''policy'', ''policies'', ''policycrds'', ''httproute'', ''httproutes''}"
    by simp
  show ?thesis
    using 1 2
      unrecognized_resource_type [of "''pods''"
        "\<lparr>namespaceArg = Some ''prod'', allNamespacesArg = None\<rparr>" "[''p1'']" demoParams]
      unrecognized_resource_type [of "''gateways''"
        "\<lparr>namespaceArg = None, allNamespacesArg = Some True\<rparr>" "[]" demoParams]
    by (simp add: NewDescribeCommand_def NewGetCommand_def)
qed

text \<open>
  C9. With the flags the command registers, describe and get run their switch with
  the namespace \<open>default\<close> when the command line gave neither flag, with the value of
  \<open>-n\<close> when it gave one, and with the empty string whenever \<open>-A\<close> is set, whatever
  \<open>-n\<close> was given.
\<close>

theorem namespace_of_invocation:
  "runDescribe (parseFlags call NewDescribeCommand_flags) (kind # rest) params =
     describeSwitch
       (if allNamespacesArg call = Some True then []
        else case namespaceArg call of None \<Rightarrow> ''default'' | Some v \<Rightarrow> v)
       kind rest params
   \<and> runGet (parseFlags call NewGetCommand_flags) (kind # rest) params =
     getSwitch
       (if allNamespacesArg call = Some True then []
        else case namespaceArg call of None \<Rightarrow> ''default'' | Some v \<Rightarrow> v)
       kind params
   \<and> readNamespace (parseFlags call NewDescribeCommand_flags) =
     Inr (if allNamespacesArg call = Some True then []
          else case namespaceArg call of None \<Rightarrow> ''default'' | Some v \<Rightarrow> v)
   \<and> readNamespace (parseFlags call NewGetCommand_flags) =
     Inr (if allNamespacesArg call = Some True then []
          else case namespaceArg call of None \<Rightarrow> ''default'' | Some v \<Rightarrow> v)"
  using runDescribe_command [of call kind rest params] runGet_command [of call kind rest params]
    readNamespace_describe_flags [of call] readNamespace_get_flags [of call]
  by (simp only: effectiveNamespace_def)

theorem namespace_of_invocation_witness:
  "readNamespace (parseFlags \<lparr>namespaceArg = None, allNamespacesArg = None\<rparr> NewDescribeCommand_flags)
     = Inr ''default''
   \<and> readNamespace (parseFlags \<lparr>namespaceArg = Some ''prod'', allNamespacesArg = None\<rparr>
        NewGetCommand_flags) = Inr ''prod''
   \<and> readNamespace (parseFlags \<lparr>namespaceArg = Some ''prod'', allNamespacesArg = Some True\<rparr>
        NewDescribeCommand_flags) = Inr []
   \<and> runGet (parseFlags \<lparr>namespaceArg = Some ''prod'', allNamespacesArg = None\<rparr> NewGetCommand_flags)
        [''httproutes''] demoParams = printed (HTTPRoutesPrint [])
   \<and> runGet (parseFlags \<lparr>namespaceArg = Some ''prod'', allNamespacesArg = Some True\<rparr>
        NewGetCommand_flags) [''httproutes''] demoParams = printed (HTTPRoutesPrint [''r1''])"
  using
    namespace_of_invocation [of "\<lparr>namespaceArg = None, allNamespacesArg = None\<rparr>"
      "''httproutes''" "[]" demoParams]
    namespace_of_invocation [of "\<lparr>namespaceArg = Some ''prod'', allNamespacesArg = None\<rparr>"
      "''httproutes''" "[]" demoParams]
    namespace_of_invocation [of "\<lparr>namespaceArg = Some ''prod'', allNamespacesArg = Some True\<rparr>"
      "''httproutes''" "[]" demoParams]
  by (simp add: getSwitch_def demoParams_def)

lemma demo_cluster_policy_only:
  "n \<noteq> [] \<Longrightarrow> GetPolicy demoParams (n @ ''/'' @ ''cluster-policy'') = None"
proof -
  assume n: "n \<noteq> []"
  have "last (n @ ''/'' @ ''cluster-policy'') \<noteq> last ''default/timeouts''"
    by simp
  then have 1: "n @ ''/'' @ ''cluster-policy'' \<noteq> ''default/timeouts''"
    by metis
  have 2: "n @ ''/'' @ ''cluster-policy'' \<noteq> ''/cluster-policy''"
    using n by simp
  show ?thesis
    using 1 2 by (simp add: demoParams_def)
qed

text \<open>
  C10, as amended. For describe of a named policy the first lookup is under the
  namespace, the separator and the name; a second lookup, under the separator and
  the name alone, is made exactly when the first finds nothing and the namespace is
  \<open>default\<close>. Whatever else the manager holds, a policy that it holds under the
  cluster-scoped key, and under no key made of a non-empty namespace, the separator
  and the name, is found exactly when the namespace is \<open>default\<close> (by the second
  lookup) or empty (the first key is then the cluster-scoped key itself).
\<close>

theorem describe_policy_lookup:
  "(readNamespace flags = Inr ns \<and> (kind = ''policy'' \<or> kind = ''policies'') \<longrightarrow>
      lookups (runDescribe flags (kind # name # others) params) =
        (if GetPolicy params (ns @ ''/'' @ name) = None \<and> ns = ''default''
         then [ns @ ''/'' @ name, ''/'' @ name] else [ns @ ''/'' @ name]))
   \<and> (readNamespace flags = Inr ns \<and> (kind = ''policy'' \<or> kind = ''policies'')
      \<and> GetPolicy params (''/'' @ name) = Some p
      \<and> (\<forall>n. n \<noteq> [] \<longrightarrow> GetPolicy params (n @ ''/'' @ name) = None) \<longrightarrow>
      out (runDescribe flags (kind # name # others) params) =
        [PoliciesDescribeView (if ns = ''default'' \<or> ns = [] then [p] else [])])"
proof (intro conjI impI)
  assume "readNamespace flags = Inr ns \<and> (kind = ''policy'' \<or> kind = ''policies'')"
  then show "lookups (runDescribe flags (kind # name # others) params) =
        (if GetPolicy params (ns @ ''/'' @ name) = None \<and> ns = ''default''
         then [ns @ ''/'' @ name, ''/'' @ name] else [ns @ ''/'' @ name])"
    by (auto simp add: runDescribe_def describeSwitch_def describePolicies_def
        split: option.splits)
next
  assume h: "readNamespace flags = Inr ns \<and> (kind = ''policy'' \<or> kind = ''policies'')
      \<and> GetPolicy params (''/'' @ name) = Some p
      \<and> (\<forall>n. n \<noteq> [] \<longrightarrow> GetPolicy params (n @ ''/'' @ name) = None)"
  then have run: "runDescribe flags (kind # name # others) params =
      describePolicies ns (name # others) params"
    by (auto simp add: runDescribe_def describeSwitch_def)
  from h have cluster: "GetPolicy params (''/'' @ name) = Some p"
    by simp
  show "out (runDescribe flags (kind # name # others) params) =
        [PoliciesDescribeView (if ns = ''default'' \<or> ns = [] then [p] else [])]"
  proof (cases "ns = []")
    case True
    then show ?thesis
      using cluster by (simp add: run describePolicies_def)
  next
    case False
    with h have first: "GetPolicy params (ns @ ''/'' @ name) = None"
      by simp
    show ?thesis
      using False first cluster by (simp add: run describePolicies_def)
  qed
qed

theorem describe_policy_lookup_witness:
  "lookups (runDescribe (parseFlags \<lparr>namespaceArg = None, allNamespacesArg = None\<rparr>
       NewDescribeCommand_flags) [''policy'', ''cluster-policy''] demoParams)
     = [''default/cluster-policy'', ''/cluster-policy'']
   \<and> lookups (runDescribe (parseFlags \<lparr>namespaceArg = Some ''prod'', allNamespacesArg = None\<rparr>
       NewDescribeCommand_flags) [''policy'', ''cluster-policy''] demoParams)
     = [''prod/cluster-policy'']
   \<and> GetPolicy demoParams ''default/timeouts'' = Some ''default/timeouts''
   \<and> out (runDescribe (parseFlags \<lparr>namespaceArg = None, allNamespacesArg = None\<rparr>
       NewDescribeCommand_flags) [''policy'', ''cluster-policy''] demoParams)
     = [PoliciesDescribeView [''/cluster-policy'']]
   \<and> out (runDescribe (parseFlags \<lparr>namespaceArg = None, allNamespacesArg = Some True\<rparr>
       NewDescribeCommand_flags) [''policies'', ''cluster-policy''] demoParams)
     = [PoliciesDescribeView [''/cluster-policy'']]
   \<and> out (runDescribe (parseFlags \<lparr>namespaceArg = Some ''prod'', allNamespacesArg = None\<rparr>
       NewDescribeCommand_flags) [''policy'', ''cluster-policy''] demoParams)
     = [PoliciesDescribeView []]"
proof -
  let ?f1 = "parseFlags \<lparr>namespaceArg = None, allNamespacesArg = None\<rparr> NewDescribeCommand_flags"
  let ?f2 = "parseFlags \<lparr>namespaceArg = Some ''prod'', allNamespacesArg = None\<rparr>
       NewDescribeCommand_flags"
  let ?f3 = "parseFlags \<lparr>namespaceArg = None, allNamespacesArg = Some True\<rparr>
       NewDescribeCommand_flags"
  have n1: "readNamespace ?f1 = Inr ''default''"
    by (simp add: readNamespace_describe_flags effectiveNamespace_def)
  have n2: "readNamespace ?f2 = Inr ''prod''"
    by (simp add: readNamespace_describe_flags effectiveNamespace_def)
  have n3: "readNamespace ?f3 = Inr []"
    by (simp add: readNamespace_describe_flags effectiveNamespace_def)
  have g1: "GetPolicy demoParams (''default'' @ ''/'' @ ''cluster-policy'') = None"
    by (simp add: demoParams_def)
  have other: "GetPolicy demoParams ''default/timeouts'' = Some ''default/timeouts''"
    by (simp add: demoParams_def)
  have cluster: "GetPolicy demoParams (''/'' @ ''cluster-policy'') = Some ''/cluster-policy''"
    by (simp add: demoParams_def)
  have only: "\<forall>n. n \<noteq> [] \<longrightarrow> GetPolicy demoParams (n @ ''/'' @ ''cluster-policy'') = None"
    using demo_cluster_policy_only by blast
  have k1: "''policy'' = ''policy'' \<or> ''policy'' = ''policies''"
    by simp
  have k2: "''policies'' = ''policy'' \<or> ''policies'' = ''policies''"
    by simp
  have 1: "lookups (runDescribe ?f1 [''policy'', ''cluster-policy''] demoParams)
      = (if GetPolicy demoParams (''default'' @ ''/'' @ ''cluster-policy'') = None
            \<and> ''default'' = ''default''
         then [''default'' @ ''/'' @ ''cluster-policy'', ''/'' @ ''cluster-policy'']
         else [''default'' @ ''/'' @ ''cluster-policy''])"
    by (rule describe_policy_lookup [where others = "[]", THEN conjunct1, THEN mp,
          OF conjI [OF n1 k1]])
  have 2: "lookups (runDescribe ?f2 [''policy'', ''cluster-policy''] demoParams)
      = (if GetPolicy demoParams (''prod'' @ ''/'' @ ''cluster-policy'') = None
            \<and> ''prod'' = ''default''
         then [''prod'' @ ''/'' @ ''cluster-policy'', ''/'' @ ''cluster-policy'']
         else [''prod'' @ ''/'' @ ''cluster-policy''])"
    by (rule describe_policy_lookup [where others = "[]", THEN conjunct1, THEN mp,
          OF conjI [OF n2 k1]])
  have 3: "out (runDescribe ?f1 [''policy'', ''cluster-policy''] demoParams)
      = [PoliciesDescribeView
          (if ''default'' = ''default'' \<or> ''default'' = [] then [''/cluster-policy''] else [])]"
    by (rule describe_policy_lookup [where others = "[]", THEN conjunct2, THEN mp,
          OF conjI [OF n1 conjI [OF k1 conjI [OF cluster only]]]])
  have 4: "out (runDescribe ?f3 [''policies'', ''cluster-policy''] demoParams)
      = [PoliciesDescribeView
          (if [] = ''default'' \<or> ([] :: string) = [] then [''/cluster-policy''] else [])]"
    by (rule describe_policy_lookup [where others = "[]", THEN conjunct2, THEN mp,
          OF conjI [OF n3 conjI [OF k2 conjI [OF cluster only]]]])
  have 5: "out (runDescribe ?f2 [''policy'', ''cluster-policy''] demoParams)
      = [PoliciesDescribeView
          (if ''prod'' = ''default'' \<or> ''prod'' = [] then [''/cluster-policy''] else [])]"
    by (rule describe_policy_lookup [where others = "[]", THEN conjunct2, THEN mp,
          OF conjI [OF n2 conjI [OF k1 conjI [OF cluster only]]]])
  have r1: "lookups (runDescribe ?f1 [''policy'', ''cluster-policy''] demoParams)
      = [''default/cluster-policy'', ''/cluster-policy'']"
    using 1 g1 by simp
  have r2: "lookups (runDescribe ?f2 [''policy'', ''cluster-policy''] demoParams)
      = [''prod/cluster-policy'']"
    using 2 by simp
  have r3: "out (runDescribe ?f1 [''policy'', ''cluster-policy''] demoParams)
      = [PoliciesDescribeView [''/cluster-policy'']]"
    using 3 by simp
  have r4: "out (runDescribe ?f3 [''policies'', ''cluster-policy''] demoParams)
      = [PoliciesDescribeView [''/cluster-policy'']]"
    using 4 by simp
  have r5: "out (runDescribe ?f2 [''policy'', ''cluster-policy''] demoParams)
      = [PoliciesDescribeView []]"
    using 5 by simp
  show ?thesis
    by (intro conjI, rule r1, rule r2, rule other, rule r3, rule r4, rule r5)
qed

text \<open>
  C10 as stated fails in its last part: under \<open>-A\<close> the namespace is empty, which is
  not \<open>default\<close>, the first and only lookup is under the cluster-scoped key, and the
  cluster-scoped policy is found.
\<close>

theorem cluster_policy_found_under_all_namespaces:
  "readNamespace (parseFlags \<lparr>namespaceArg = None, allNamespacesArg = Some True\<rparr>
       NewDescribeCommand_flags) = Inr []
   \<and> NewDescribeCommand \<lparr>namespaceArg = None, allNamespacesArg = Some True\<rparr>
       [''policy'', ''cluster-policy''] demoParams =
     Some \<lparr>out = [PoliciesDescribeView [''/cluster-policy'']], errOut = [],
           lookups = [''/cluster-policy''], status = Returned\<rparr>"
  by (simp add: NewDescribeCommand_def runDescribe_command readNamespace_describe_flags
      effectiveNamespace_def describeSwitch_def describePolicies_def demoParams_def)

end
